theory Spec2Isabelle
  imports Complex_Main "HOL-Library.Multiset"
begin

section \<open>Tensors\<close>

text \<open>
  The scoring model of \<^verbatim>\<open>nnrecommend/fmachine.py\<close> works on dense tensors of rank
  two and three. A tensor carries its shape next to its entries, as a torch tensor does,
  so that a dimension of size zero keeps the sizes of the others. Entries are rationals:
  the arithmetic of the model is followed exactly, rounding is not.
\<close>

record tensor2 =
  nrows :: nat
  ncols :: nat
  elems :: "rat list list"

record tensor3 =
  dim0 :: nat
  dim1 :: nat
  dim2 :: nat
  elems3 :: "rat list list list"

definition tensor2_ok :: "tensor2 \<Rightarrow> bool" where
  "tensor2_ok t \<longleftrightarrow>
     length (elems t) = nrows t \<and> (\<forall>r \<in> set (elems t). length r = ncols t)"

definition tensor3_ok :: "tensor3 \<Rightarrow> bool" where
  "tensor3_ok x \<longleftrightarrow>
     length (elems3 x) = dim0 x \<and>
     (\<forall>e \<in> set (elems3 x). length e = dim1 x \<and> (\<forall>v \<in> set e. length v = dim2 x))"

definition shape2 :: "tensor2 \<Rightarrow> nat \<times> nat" where
  "shape2 t = (nrows t, ncols t)"

subsection \<open>The tensor operations the model uses\<close>

text \<open>\<^verbatim>\<open>torch.sum(x, dim=1)\<close> for one example: entry \<open>k\<close> of the result adds entry \<open>k\<close>
  of every field's vector.\<close>

definition sum_fields :: "nat \<Rightarrow> rat list list \<Rightarrow> rat list" where
  "sum_fields d vs = map (\<lambda>k. sum_list (map (\<lambda>v. v ! k) vs)) [0..<d]"

definition torch_sum_dim1 :: "tensor3 \<Rightarrow> tensor2" where
  "torch_sum_dim1 x =
     \<lparr>nrows = dim0 x, ncols = dim2 x, elems = map (sum_fields (dim2 x)) (elems3 x)\<rparr>"

text \<open>\<^verbatim>\<open>x ** 2\<close> on a tensor of rank three and of rank two.\<close>

definition pow2_tensor3 :: "tensor3 \<Rightarrow> tensor3" where
  "pow2_tensor3 x = x\<lparr>elems3 := map (map (map (\<lambda>a. a ^ 2))) (elems3 x)\<rparr>"

definition pow2_tensor2 :: "tensor2 \<Rightarrow> tensor2" where
  "pow2_tensor2 t = t\<lparr>elems := map (map (\<lambda>a. a ^ 2)) (elems t)\<rparr>"

text \<open>The difference of two tensors of one shape (the two operands of
  \<^verbatim>\<open>square_of_sum - sum_of_square\<close> both come from \<^verbatim>\<open>torch.sum(_, dim=1)\<close> on tensors
  of the shape of \<open>x\<close>).\<close>

definition sub_tensor2 :: "tensor2 \<Rightarrow> tensor2 \<Rightarrow> tensor2" where
  "sub_tensor2 s t = s\<lparr>elems := map2 (map2 (-)) (elems s) (elems t)\<rparr>"

text \<open>\<^verbatim>\<open>torch.sum(ix, dim=1, keepdim=True)\<close>: one column holding the sum of each row.\<close>

definition torch_sum_dim1_keepdim :: "tensor2 \<Rightarrow> tensor2" where
  "torch_sum_dim1_keepdim t =
     \<lparr>nrows = nrows t, ncols = 1, elems = map (\<lambda>r. [sum_list r]) (elems t)\<rparr>"

definition scale_tensor2 :: "rat \<Rightarrow> tensor2 \<Rightarrow> tensor2" where
  "scale_tensor2 c t = t\<lparr>elems := map (map (\<lambda>a. c * a)) (elems t)\<rparr>"

section \<open>FactorizationMachineOperation\<close>

record FactorizationMachineOperation =
  reduce_sum :: bool

definition FactorizationMachineOperation_forward ::
  "FactorizationMachineOperation \<Rightarrow> tensor3 \<Rightarrow> tensor2" where
  "FactorizationMachineOperation_forward self x =
     (let square_of_sum = pow2_tensor2 (torch_sum_dim1 x);
          sum_of_square = torch_sum_dim1 (pow2_tensor3 x);
          ix = sub_tensor2 square_of_sum sum_of_square;
          ix = (if reduce_sum self then torch_sum_dim1_keepdim ix else ix)
      in scale_tensor2 (1 / 2) ix)"

subsection \<open>The pairwise sum the identity stands for\<close>

definition dot :: "rat list \<Rightarrow> rat list \<Rightarrow> rat" where
  "dot v w = sum_list (map2 (*) v w)"

text \<open>The brute-force interaction of one example, in the words of the specification: the
  sum, over all pairs of fields \<open>f < g\<close>, of the dot product of their vectors.\<close>

definition brute_force_pairwise :: "rat list list \<Rightarrow> rat" where
  "brute_force_pairwise vs =
     sum_list (concat (map (\<lambda>f. map (\<lambda>g. dot (vs ! f) (vs ! g)) [Suc f..<length vs])
                           [0..<length vs]))"



text \<open>The entries of the result for one example: what the four tensor steps of
  \<^verbatim>\<open>forward\<close> do to the vectors of that example (a reading aid for the proofs,
  related to the code by \<open>forward_elems\<close>).\<close>

definition fm_row :: "bool \<Rightarrow> nat \<Rightarrow> rat list list \<Rightarrow> rat list" where
  "fm_row rs d vs =
     (let ix = map2 (-) (map (\<lambda>a. a ^ 2) (sum_fields d vs))
                        (sum_fields d (map (map (\<lambda>a. a ^ 2)) vs))
      in map (\<lambda>a. (1 / 2) * a) (if rs then [sum_list ix] else ix))"

text \<open>The pairwise sum again, by recursion on the fields.\<close>

fun pairs_rec :: "rat list list \<Rightarrow> rat" where
  "pairs_rec [] = 0"
| "pairs_rec (v # vs) = sum_list (map (dot v) vs) + pairs_rec vs"

section \<open>Errors\<close>

text \<open>The exceptions of the program, as values. \<open>UnsupportedOperation\<close> is the one
  \<^verbatim>\<open>get_embedding_weight\<close> raises itself; \<open>IndexError\<close> and \<open>RuntimeError\<close> are what
  torch raises for an id outside a table and for shapes that do not broadcast;
  \<open>NotFoundError\<close> and \<open>LoadError\<close> are the serving-side errors of the specification.\<close>

datatype error = UnsupportedOperation | IndexError | RuntimeError | NotFoundError | LoadError

text \<open>Running a list of fallible steps: the first error wins.\<close>

fun sequence :: "(error + 'a) list \<Rightarrow> error + 'a list" where
  "sequence [] = Inr []"
| "sequence (r # rs) =
     (case r of
        Inl e \<Rightarrow> Inl e
      | Inr v \<Rightarrow> (case sequence rs of Inl e \<Rightarrow> Inl e | Inr vs \<Rightarrow> Inr (v # vs)))"

section \<open>More tensors\<close>

text \<open>A tensor of rank two from its shape and its entries.\<close>

definition mk_tensor2 :: "nat \<Rightarrow> nat \<Rightarrow> (nat \<Rightarrow> nat \<Rightarrow> rat) \<Rightarrow> tensor2" where
  "mk_tensor2 n m f =
     \<lparr>nrows = n, ncols = m, elems = map (\<lambda>i. map (\<lambda>j. f i j) [0..<m]) [0..<n]\<rparr>"

text \<open>\<^verbatim>\<open>t.transpose(0, 1)\<close>.\<close>

definition transpose_tensor2 :: "tensor2 \<Rightarrow> tensor2" where
  "transpose_tensor2 t =
     \<lparr>nrows = ncols t, ncols = nrows t,
      elems = map (\<lambda>j. map (\<lambda>r. r ! j) (elems t)) [0..<ncols t]\<rparr>"

text \<open>A tensor of field ids (\<^verbatim>\<open>Long tensor of size (batch_size, num_fields)\<close>).\<close>

record long_tensor2 =
  lnrows :: nat
  lncols :: nat
  lelems :: "int list list"

definition long_tensor2_ok :: "long_tensor2 \<Rightarrow> bool" where
  "long_tensor2_ok x \<longleftrightarrow>
     length (lelems x) = lnrows x \<and> (\<forall>r \<in> set (lelems x). length r = lncols x)"

text \<open>\<^verbatim>\<open>s + t\<close> on tensors of rank two, with torch's broadcasting: two sizes of a
  dimension agree when they are equal or one of them is 1. A tensor of rank one (the
  bias) takes part as a single row.\<close>

definition broadcast_dim :: "nat \<Rightarrow> nat \<Rightarrow> nat option" where
  "broadcast_dim n m =
     (if n = m then Some n else if n = 1 then Some m else if m = 1 then Some n else None)"

definition broadcast_get :: "tensor2 \<Rightarrow> nat \<Rightarrow> nat \<Rightarrow> rat" where
  "broadcast_get t i j =
     elems t ! (if nrows t = 1 then 0 else i) ! (if ncols t = 1 then 0 else j)"

definition add_tensor2 :: "tensor2 \<Rightarrow> tensor2 \<Rightarrow> error + tensor2" where
  "add_tensor2 s t =
     (case broadcast_dim (nrows s) (nrows t) of
        None \<Rightarrow> Inl RuntimeError
      | Some n \<Rightarrow>
          (case broadcast_dim (ncols s) (ncols t) of
             None \<Rightarrow> Inl RuntimeError
           | Some m \<Rightarrow> Inr (mk_tensor2 n m (\<lambda>i j. broadcast_get s i j + broadcast_get t i j))))"

definition row_tensor :: "rat list \<Rightarrow> tensor2" where
  "row_tensor b = \<lparr>nrows = 1, ncols = length b, elems = [b]\<rparr>"

text \<open>\<^verbatim>\<open>out.squeeze(1)\<close>: dimension 1 is dropped when its size is 1, and the tensor is
  returned as it is otherwise.\<close>

datatype tensor = Rank1 "rat list" | Rank2 tensor2

definition squeeze1 :: "tensor2 \<Rightarrow> tensor" where
  "squeeze1 t = (if ncols t = 1 then Rank1 (map (\<lambda>r. r ! 0) (elems t)) else Rank2 t)"

section \<open>torch.nn.Embedding\<close>

text \<open>\<^verbatim>\<open>torch.nn.Embedding(num_embeddings, embedding_dim)\<close> holds a \<^verbatim>\<open>weight\<close> of shape
  \<open>(num_embeddings, embedding_dim)\<close>. Looking up an id outside \<open>[0, num_embeddings)\<close>
  raises \<^verbatim>\<open>IndexError\<close>; a negative id does not count from the end.\<close>

definition embedding_row :: "tensor2 \<Rightarrow> int \<Rightarrow> error + rat list" where
  "embedding_row w i =
     (if 0 \<le> i \<and> i < int (nrows w) then Inr (elems w ! nat i) else Inl IndexError)"

definition Embedding_forward :: "tensor2 \<Rightarrow> long_tensor2 \<Rightarrow> error + tensor3" where
  "Embedding_forward w x =
     (case sequence (map (\<lambda>r. sequence (map (embedding_row w) r)) (lelems x)) of
        Inl e \<Rightarrow> Inl e
      | Inr d \<Rightarrow> Inr \<lparr>dim0 = lnrows x, dim1 = lncols x, dim2 = ncols w, elems3 = d\<rparr>)"

section \<open>LinearFeatures\<close>

record LinearFeatures =
  fc :: tensor2
  bias :: "rat list"

text \<open>\<^verbatim>\<open>__init__(field_dim, output_dim=1)\<close>: the table \<open>fc\<close> starts from random values
  (the argument \<open>rnd\<close> gives the value drawn for each entry), the bias from zeros.\<close>

definition LinearFeatures_init :: "(nat \<Rightarrow> nat \<Rightarrow> rat) \<Rightarrow> nat \<Rightarrow> nat \<Rightarrow> LinearFeatures" where
  "LinearFeatures_init rnd field_dim output_dim =
     \<lparr>fc = mk_tensor2 field_dim output_dim rnd, bias = replicate output_dim 0\<rparr>"

definition LinearFeatures_forward :: "LinearFeatures \<Rightarrow> long_tensor2 \<Rightarrow> error + tensor2" where
  "LinearFeatures_forward self x =
     (case Embedding_forward (fc self) x of
        Inl e \<Rightarrow> Inl e
      | Inr fcx \<Rightarrow> add_tensor2 (torch_sum_dim1 fcx) (row_tensor (bias self)))"

section \<open>Sparse matrices\<close>

text \<open>A scipy sparse matrix, in coordinate form: its shape and the stored entries
  \<open>(row[k], col[k], data[k])\<close>. \<^verbatim>\<open>tocoo()\<close> changes the storage format only, so it is the
  identity here. An entry stored twice counts as the sum of its values, as in scipy and
  in torch.\<close>

record scipy_sparse =
  sp_shape :: "nat \<times> nat"
  sp_row :: "nat list"
  sp_col :: "nat list"
  sp_data :: "rat list"

definition scipy_sparse_ok :: "scipy_sparse \<Rightarrow> bool" where
  "scipy_sparse_ok m \<longleftrightarrow>
     length (sp_row m) = length (sp_data m) \<and> length (sp_col m) = length (sp_data m) \<and>
     (\<forall>i \<in> set (sp_row m). i < fst (sp_shape m)) \<and>
     (\<forall>j \<in> set (sp_col m). j < snd (sp_shape m))"

text \<open>A torch sparse COO tensor: \<open>st_indices\<close> are the columns of its \<open>2 \<times> nnz\<close> index
  tensor.\<close>

record sparse_tensor =
  st_indices :: "(nat \<times> nat) list"
  st_values :: "rat list"
  st_size :: "nat \<times> nat"

text \<open>The value a list of stored entries gives to position \<open>(i, j)\<close>.\<close>

definition entry_at :: "(nat \<times> nat) list \<Rightarrow> rat list \<Rightarrow> nat \<Rightarrow> nat \<Rightarrow> rat" where
  "entry_at idx vals i j = sum_list (map snd (filter (\<lambda>kv. fst kv = (i, j)) (zip idx vals)))"

definition sp_entry :: "scipy_sparse \<Rightarrow> nat \<Rightarrow> nat \<Rightarrow> rat" where
  "sp_entry m i j = entry_at (zip (sp_row m) (sp_col m)) (sp_data m) i j"

definition st_entry :: "sparse_tensor \<Rightarrow> nat \<Rightarrow> nat \<Rightarrow> rat" where
  "st_entry t i j = entry_at (st_indices t) (st_values t) i j"

text \<open>\<^verbatim>\<open>scipy.sparse.identity(n)\<close>.\<close>

definition sp_identity :: "nat \<Rightarrow> scipy_sparse" where
  "sp_identity n =
     \<lparr>sp_shape = (n, n), sp_row = [0..<n], sp_col = [0..<n], sp_data = replicate n 1\<rparr>"

definition sparse_scipy_matrix_to_tensor :: "scipy_sparse \<Rightarrow> sparse_tensor" where
  "sparse_scipy_matrix_to_tensor matrix =
     (let indices = zip (sp_row matrix) (sp_col matrix);
          values = sp_data matrix;
          shape = sp_shape matrix
      in \<lparr>st_indices = indices, st_values = values, st_size = shape\<rparr>)"

text \<open>\<^verbatim>\<open>tensor.coalesce()\<close>: one stored entry per position, in the order of the flattened
  index \<open>i * ncols + j\<close>, holding the sum of the values stored there.\<close>

definition coalesce :: "sparse_tensor \<Rightarrow> sparse_tensor" where
  "coalesce t =
     (let keys = sort_key (\<lambda>k. fst k * snd (st_size t) + snd k) (remdups (st_indices t))
      in \<lparr>st_indices = keys,
          st_values = map (\<lambda>k. entry_at (st_indices t) (st_values t) (fst k) (snd k)) keys,
          st_size = st_size t\<rparr>)"

text \<open>torch_geometric's \<^verbatim>\<open>from_scipy_sparse_matrix\<close> returns the edge index and the edge
  weights of the matrix; \<^verbatim>\<open>to_scipy_sparse_matrix(edge_index, edge_attr)\<close>, called without
  \<^verbatim>\<open>num_nodes\<close>, builds a square matrix of \<open>N\<close> nodes, \<open>N\<close> being one more than the
  largest index in \<open>edge_index\<close> (\<^verbatim>\<open>int(edge_index.max()) + 1\<close>, which fails on an edge
  index without entries).\<close>

definition from_scipy_sparse_matrix :: "scipy_sparse \<Rightarrow> (nat \<times> nat) list \<times> rat list" where
  "from_scipy_sparse_matrix A = (zip (sp_row A) (sp_col A), sp_data A)"

definition maybe_num_nodes :: "(nat \<times> nat) list \<Rightarrow> error + nat" where
  "maybe_num_nodes edge_index =
     (if edge_index = [] then Inl RuntimeError
      else Inr (Suc (fold max (map fst edge_index @ map snd edge_index) 0)))"

definition to_scipy_sparse_matrix :: "(nat \<times> nat) list \<Rightarrow> rat list \<Rightarrow> error + scipy_sparse" where
  "to_scipy_sparse_matrix edge_index edge_attr =
     (case maybe_num_nodes edge_index of
        Inl e \<Rightarrow> Inl e
      | Inr N \<Rightarrow> Inr \<lparr>sp_shape = (N, N), sp_row = map fst edge_index,
                      sp_col = map snd edge_index, sp_data = edge_attr\<rparr>)"

definition sparse_tensor_to_scipy_matrix :: "sparse_tensor \<Rightarrow> error + scipy_sparse" where
  "sparse_tensor_to_scipy_matrix tensor =
     (let tensor = coalesce tensor
      in to_scipy_sparse_matrix (st_indices tensor) (st_values tensor))"

section \<open>GraphModel\<close>

text \<open>The graph layers come from torch_geometric, in the interface the code is written
  against: \<^verbatim>\<open>GCNConv(in_channels, out_channels)\<close> holds a parameter \<^verbatim>\<open>weight\<close> of shape
  \<open>(in_channels, out_channels)\<close> and has no \<^verbatim>\<open>lin_r\<close>;
  \<^verbatim>\<open>GATConv(in_channels, out_channels, heads, dropout)\<close> concatenates its heads and holds
  a linear map \<^verbatim>\<open>lin_r\<close> from \<open>in_channels\<close> to \<open>heads * out_channels\<close>, whose \<^verbatim>\<open>weight\<close>
  has shape \<open>(heads * out_channels, in_channels)\<close>, as every \<^verbatim>\<open>torch.nn.Linear\<close> does.
  The constructors are the layer with its weight; \<open>GATConv\<close> keeps its number of heads
  and its dropout rate.\<close>

datatype conv_layer = GCNConv tensor2 | GATConv nat rat tensor2

definition GCNConv_init :: "(nat \<Rightarrow> nat \<Rightarrow> rat) \<Rightarrow> nat \<Rightarrow> nat \<Rightarrow> conv_layer" where
  "GCNConv_init rnd in_channels out_channels = GCNConv (mk_tensor2 in_channels out_channels rnd)"

definition GATConv_init ::
  "(nat \<Rightarrow> nat \<Rightarrow> rat) \<Rightarrow> nat \<Rightarrow> nat \<Rightarrow> nat \<Rightarrow> rat \<Rightarrow> conv_layer" where
  "GATConv_init rnd in_channels out_channels heads dropout =
     GATConv heads dropout (mk_tensor2 (heads * out_channels) in_channels rnd)"

record GraphModel =
  matrix :: "(nat \<times> nat) list"
  features :: sparse_tensor
  gcn :: conv_layer

definition GraphModel_init ::
  "(nat \<Rightarrow> nat \<Rightarrow> rat) \<Rightarrow> nat \<Rightarrow> nat \<Rightarrow> sparse_tensor \<Rightarrow> (nat \<times> nat) list \<Rightarrow> bool \<Rightarrow> GraphModel" where
  "GraphModel_init rnd field_dim embed_dim =
     (\<lambda>features matrix attention.
        \<lparr>matrix = matrix, features = features,
         gcn = (if attention then GATConv_init rnd field_dim embed_dim 8 (6 / 10)
                else GCNConv_init rnd field_dim embed_dim)\<rparr>)"

text \<open>\<^verbatim>\<open>GraphModel.get_embedding_weight\<close>: \<^verbatim>\<open>hasattr(self.gcn, "lin_r")\<close> holds for the
  attention layer and not for the plain one, which has \<^verbatim>\<open>weight\<close>.\<close>

definition GraphModel_get_embedding_weight :: "GraphModel \<Rightarrow> tensor2" where
  "GraphModel_get_embedding_weight self =
     (case gcn self of
        GATConv heads dropout lin_r_weight \<Rightarrow> transpose_tensor2 lin_r_weight
      | GCNConv weight \<Rightarrow> weight)"

text \<open>\<^verbatim>\<open>h[x]\<close> for a matrix \<open>h\<close> and a tensor of ids \<open>x\<close>: row \<open>i\<close> of \<open>h\<close> for each id,
  a negative id counting from the end, \<^verbatim>\<open>IndexError\<close> outside \<open>[-n, n)\<close>.\<close>

definition index_row :: "tensor2 \<Rightarrow> int \<Rightarrow> error + rat list" where
  "index_row h i =
     (let n = int (nrows h); j = (if i < 0 then n + i else i)
      in if 0 \<le> j \<and> j < n then Inr (elems h ! nat j) else Inl IndexError)"

definition index_rows :: "tensor2 \<Rightarrow> long_tensor2 \<Rightarrow> error + tensor3" where
  "index_rows h x =
     (case sequence (map (\<lambda>r. sequence (map (index_row h) r)) (lelems x)) of
        Inl e \<Rightarrow> Inl e
      | Inr d \<Rightarrow> Inr \<lparr>dim0 = lnrows x, dim1 = lncols x, dim2 = ncols h, elems3 = d\<rparr>)"

text \<open>\<^verbatim>\<open>GraphModel.forward\<close>. The convolution itself is torch_geometric's; it is the
  argument \<open>conv\<close>, from the layer, the node features and the edge index to the matrix of
  node embeddings.\<close>

type_synonym convolution =
  "conv_layer \<Rightarrow> sparse_tensor \<Rightarrow> (nat \<times> nat) list \<Rightarrow> error + tensor2"

definition GraphModel_forward :: "convolution \<Rightarrow> GraphModel \<Rightarrow> long_tensor2 \<Rightarrow> error + tensor3" where
  "GraphModel_forward conv self x =
     (case conv (gcn self) (features self) (matrix self) of
        Inl e \<Rightarrow> Inl e
      | Inr h \<Rightarrow> index_rows h x)"

section \<open>FactorizationMachineModel\<close>

text \<open>The embedding source is used through three names only: it is called, it is asked
  for \<^verbatim>\<open>get_embedding_weight\<close>, and it is asked for \<^verbatim>\<open>weight\<close>. A source is therefore
  what it answers to the three: an attribute is there (\<open>Some\<close>) or not (\<open>None\<close>), and a
  \<^verbatim>\<open>get_embedding_weight\<close> that is there is the matrix it returns.\<close>

record embedding_source =
  attr_get_embedding_weight :: "tensor2 option"
  attr_weight :: "tensor2 option"
  call :: "long_tensor2 \<Rightarrow> error + tensor3"

definition Embedding_source :: "tensor2 \<Rightarrow> embedding_source" where
  "Embedding_source w =
     \<lparr>attr_get_embedding_weight = None, attr_weight = Some w, call = Embedding_forward w\<rparr>"

definition GraphModel_source :: "convolution \<Rightarrow> GraphModel \<Rightarrow> embedding_source" where
  "GraphModel_source conv g =
     \<lparr>attr_get_embedding_weight = Some (GraphModel_get_embedding_weight g),
      attr_weight = None, call = GraphModel_forward conv g\<rparr>"

record FactorizationMachineModel =
  linear :: LinearFeatures
  fm :: FactorizationMachineOperation
  embedding :: embedding_source

text \<open>The random draws of \<^verbatim>\<open>__init__\<close>: the values the parameter tensors start from
  (for the plain table, the values after \<^verbatim>\<open>xavier_uniform_\<close>). Moving a tensor to a
  device changes none of its entries, so \<^verbatim>\<open>device\<close> is not an argument.\<close>

record initial_values =
  fc_values :: "nat \<Rightarrow> nat \<Rightarrow> rat"
  embedding_values :: "nat \<Rightarrow> nat \<Rightarrow> rat"
  conv_values :: "nat \<Rightarrow> nat \<Rightarrow> rat"

definition FactorizationMachineModel_init ::
  "convolution \<Rightarrow> initial_values \<Rightarrow> nat \<Rightarrow> nat \<Rightarrow> scipy_sparse option \<Rightarrow> bool
     \<Rightarrow> FactorizationMachineModel" where
  "FactorizationMachineModel_init conv iv field_dim embed_dim =
     (\<lambda>matrix attention.
     \<lparr>linear = LinearFeatures_init (fc_values iv) field_dim 1,
      fm = \<lparr>reduce_sum = True\<rparr>,
      embedding =
        (case matrix of
           None \<Rightarrow> Embedding_source (mk_tensor2 field_dim embed_dim (embedding_values iv))
         | Some m \<Rightarrow>
             (let features = sp_identity (fst (sp_shape m));
                  features = sparse_scipy_matrix_to_tensor features;
                  indices = fst (from_scipy_sparse_matrix m)
              in GraphModel_source conv
                   (GraphModel_init (conv_values iv) field_dim embed_dim features indices
                      attention)))\<rparr>)"

definition FactorizationMachineModel_get_embedding_weight ::
  "FactorizationMachineModel \<Rightarrow> error + tensor2" where
  "FactorizationMachineModel_get_embedding_weight self =
     (case attr_get_embedding_weight (embedding self) of
        Some w \<Rightarrow> Inr w
      | None \<Rightarrow>
          (case attr_weight (embedding self) of
             Some w \<Rightarrow> Inr w
           | None \<Rightarrow> Inl UnsupportedOperation))"

definition FactorizationMachineModel_forward ::
  "FactorizationMachineModel \<Rightarrow> long_tensor2 \<Rightarrow> error + tensor" where
  "FactorizationMachineModel_forward self interactions =
     (case LinearFeatures_forward (linear self) interactions of
        Inl e \<Rightarrow> Inl e
      | Inr lin \<Rightarrow>
          (case call (embedding self) interactions of
             Inl e \<Rightarrow> Inl e
           | Inr emb \<Rightarrow>
               (case add_tensor2 lin (FactorizationMachineOperation_forward (fm self) emb) of
                  Inl e \<Rightarrow> Inl e
                | Inr out \<Rightarrow> Inr (squeeze1 out))))"

text \<open>The linear term of one row of field ids, in the words of the specification: the
  sum of the weights of the row's ids, plus the shared bias.\<close>

definition linear_term :: "LinearFeatures \<Rightarrow> int list \<Rightarrow> rat" where
  "linear_term l r = sum_list (map (\<lambda>i. elems (fc l) ! nat i ! 0) r) + bias l ! 0"

text \<open>Every id of the batch lies in \<open>[0, n)\<close>.\<close>

definition ids_in_range :: "long_tensor2 \<Rightarrow> nat \<Rightarrow> bool" where
  "ids_in_range x n \<longleftrightarrow> (\<forall>r \<in> set (lelems x). \<forall>i \<in> set r. 0 \<le> i \<and> i < int n)"

section \<open>The recommend command\<close>

text \<open>The command of \<^verbatim>\<open>nnrecommend/cli/recommend.py\<close> logs what it does and either
  returns or is left by an exception. A log is the list of its records, in order; the
  records keep the values the messages are formatted from.\<close>

record found_item =
  item_id :: int
  item_text :: string

datatype log_record =
    Info_reading_model_file
  | Error_failed_to_load_model_file
  | Error_could_not_load_model
  | Info_loaded_model
  | Info_found found_item
  | Info_looking_for_recommendations
  | Info_rating rat string

datatype outcome = Returned_False | Returned_None | Raised error

text \<open>\<^verbatim>\<open>load_model\<close>, \<^verbatim>\<open>Finder\<close> and \<^verbatim>\<open>Recommender\<close> are imported from modules that are
  not part of the sources at hand; pandas' \<^verbatim>\<open>dropna\<close> is a library function. The command
  takes them as they come: each is a field of \<open>collaborators\<close>, a call that raises is a
  call that returns \<open>Inl\<close>. A recommender returns the pairs it would yield.\<close>

record ('model, 'items) collaborators =
  load_model :: "string \<Rightarrow> error + ('model option \<times> int list \<times> 'items)"
  dropna :: "'items \<Rightarrow> 'items"
  Finder :: "'items \<Rightarrow> string list \<Rightarrow> string \<Rightarrow> error + found_item"
  Recommender :: "int list \<Rightarrow> 'items \<Rightarrow> 'model \<Rightarrow> int \<Rightarrow> int \<Rightarrow> error + (string \<times> rat) list"

text \<open>The loop over \<^verbatim>\<open>item_names\<close>, inside \<^verbatim>\<open>torch.no_grad()\<close>. Nothing in it catches an exception: the first call
  that raises ends the loop, with the log as it stands.\<close>

fun recommend_loop ::
  "(string \<Rightarrow> error + found_item) \<Rightarrow> (int \<Rightarrow> int \<Rightarrow> error + (string \<times> rat) list) \<Rightarrow> int
     \<Rightarrow> string list \<Rightarrow> log_record list \<Rightarrow> log_record list \<times> error option" where
  "recommend_loop finder recommender topk [] logged = (logged, None)"
| "recommend_loop finder recommender topk (item_name # rest) logged =
     (case finder item_name of
        Inl e \<Rightarrow> (logged, Some e)
      | Inr r \<Rightarrow>
          (let logged = logged @ [Info_found r, Info_looking_for_recommendations]
           in case recommender (item_id r) topk of
                Inl e \<Rightarrow> (logged, Some e)
              | Inr recs \<Rightarrow>
                  recommend_loop finder recommender topk rest
                    (logged @ map (\<lambda>(item, rating). Info_rating rating item) recs)))"

text \<open>The command. \<^verbatim>\<open>model.eval().to(device)\<close> is the loaded model, with its
  parameters as they are; a bare \<^verbatim>\<open>except\<close> around the loading catches whatever it
  raises.\<close>

definition recommend ::
  "('model, 'items) collaborators \<Rightarrow> string \<Rightarrow> string list \<Rightarrow> string list \<Rightarrow> int
     \<Rightarrow> log_record list \<times> outcome" where
  "recommend c path item_names =
     (\<lambda>fields topk.
      let logged = [Info_reading_model_file]
      in case load_model c path of
           Inl e \<Rightarrow> (logged @ [Error_failed_to_load_model_file], Returned_False)
         | Inr (model, idrange, items) \<Rightarrow>
             (case model of
                None \<Rightarrow> (logged @ [Error_could_not_load_model], Returned_None)
              | Some model \<Rightarrow>
                  (let logged = logged @ [Info_loaded_model];
                       items = dropna c items;
                       finder = Finder c items fields;
                       recommender = Recommender c idrange items model
                   in case recommend_loop finder recommender topk item_names logged of
                        (logged, None) \<Rightarrow> (logged, Returned_None)
                      | (logged, Some e) \<Rightarrow> (logged, Raised e))))"

text \<open>A query is served when the finder finds its item and the recommender answers.\<close>

definition query_served ::
  "(string \<Rightarrow> error + found_item) \<Rightarrow> (int \<Rightarrow> int \<Rightarrow> error + (string \<times> rat) list) \<Rightarrow> int
     \<Rightarrow> string \<Rightarrow> bool" where
  "query_served finder recommender topk q \<longleftrightarrow>
     (case finder q of
        Inl e \<Rightarrow> False
      | Inr r \<Rightarrow> (case recommender (item_id r) topk of Inl e \<Rightarrow> False | Inr recs \<Rightarrow> True))"

text \<open>A query fails with \<open>e\<close> when the finder raises \<open>e\<close>, or finds the item and the
  recommender raises \<open>e\<close>.\<close>

definition query_fails ::
  "(string \<Rightarrow> error + found_item) \<Rightarrow> (int \<Rightarrow> int \<Rightarrow> error + (string \<times> rat) list) \<Rightarrow> int
     \<Rightarrow> string \<Rightarrow> error \<Rightarrow> bool" where
  "query_fails finder recommender topk q e \<longleftrightarrow>
     (case finder q of
        Inl e' \<Rightarrow> e' = e
      | Inr r \<Rightarrow> (case recommender (item_id r) topk of Inl e' \<Rightarrow> e' = e | Inr recs \<Rightarrow> False))"

section \<open>The interaction term in binary32 arithmetic\<close>


























section \<open>Concrete inputs\<close>



text \<open>A model over three ids with the plain table, and a batch of two rows of two ids.\<close>

definition example_model :: FactorizationMachineModel where
  "example_model =
     \<lparr>linear = \<lparr>fc = \<lparr>nrows = 3, ncols = 1, elems = [[1], [2], [3]]\<rparr>, bias = [1 / 2]\<rparr>,
      fm = \<lparr>reduce_sum = True\<rparr>,
      embedding = Embedding_source \<lparr>nrows = 3, ncols = 2, elems = [[1, 2], [3, 4], [5, 6]]\<rparr>\<rparr>"

definition example_rows :: long_tensor2 where
  "example_rows = \<lparr>lnrows = 2, lncols = 2, lelems = [[0, 1], [2, 0]]\<rparr>"

definition example_embeddings :: tensor3 where
  "example_embeddings =
     \<lparr>dim0 = 2, dim1 = 2, dim2 = 2, elems3 = [[[1, 2], [3, 4]], [[5, 6], [1, 2]]]\<rparr>"

text \<open>A convolution that always fails, starting values that are all zero, the graph of one
  edge between two nodes, and an embedding source with neither attribute.\<close>

definition no_convolution :: convolution where
  "no_convolution = (\<lambda>layer feats edges. Inl RuntimeError)"

definition zero_values :: initial_values where
  "zero_values =
     \<lparr>fc_values = (\<lambda>i j. 0), embedding_values = (\<lambda>i j. 0), conv_values = (\<lambda>i j. 0)\<rparr>"

definition two_node_graph :: scipy_sparse where
  "two_node_graph = \<lparr>sp_shape = (2, 2), sp_row = [0, 1], sp_col = [1, 0], sp_data = [1, 1]\<rparr>"

definition bare_source :: embedding_source where
  "bare_source =
     \<lparr>attr_get_embedding_weight = None, attr_weight = None, call = (\<lambda>x. Inl RuntimeError)\<rparr>"

definition bare_model :: FactorizationMachineModel where
  "bare_model =
     \<lparr>linear = LinearFeatures_init (\<lambda>i j. 0) 2 1, fm = \<lparr>reduce_sum = True\<rparr>,
      embedding = bare_source\<rparr>"

text \<open>A matrix of shape \<open>(3, 3)\<close> whose last row and last column are empty, and a matrix
  of shape \<open>(3, 4)\<close> with one position stored twice.\<close>

definition trailing_empty :: scipy_sparse where
  "trailing_empty = \<lparr>sp_shape = (3, 3), sp_row = [0], sp_col = [1], sp_data = [1]\<rparr>"

definition stored_twice :: scipy_sparse where
  "stored_twice =
     \<lparr>sp_shape = (3, 4), sp_row = [2, 0, 2, 0], sp_col = [1, 1, 1, 0], sp_data = [1, 2, 3, 4]\<rparr>"

text \<open>A convolution that returns the same two node embeddings for every graph, and a batch
  of one row asking for node 1 and node 0.\<close>

definition fixed_convolution :: convolution where
  "fixed_convolution =
     (\<lambda>layer feats edges. Inr \<lparr>nrows = 2, ncols = 1, elems = [[7], [9]]\<rparr>)"

definition node_rows :: long_tensor2 where
  "node_rows = \<lparr>lnrows = 1, lncols = 2, lelems = [[1, 0]]\<rparr>"

text \<open>A catalog in which the finder knows the name \<open>good\<close> only.\<close>

definition example_cli :: "(unit, unit) collaborators" where
  "example_cli =
     \<lparr>load_model = (\<lambda>path. Inr (Some (), [2, 4], ())),
      dropna = (\<lambda>items. items),
      Finder = (\<lambda>items fields name.
                  if name = ''good'' then Inr \<lparr>item_id = 1, item_text = ''good''\<rparr>
                  else Inl NotFoundError),
      Recommender = (\<lambda>idrange items model liked topk. Inr [(''other'', 3 / 4)])\<rparr>"

text \<open>The same collaborators with a model file that cannot be read.\<close>

definition unreadable_cli :: "(unit, unit) collaborators" where
  "unreadable_cli = example_cli\<lparr>load_model := (\<lambda>path. Inl LoadError)\<rparr>"



section \<open>The interaction term\<close>

subsection \<open>The brute-force sum, by recursion\<close>

lemma brute_force_pairwise_Cons:
  "brute_force_pairwise (v # vs) = sum_list (map (dot v) vs) + brute_force_pairwise vs"
proof -
  let ?n = "length vs"
  have up: "[0..<Suc ?n] = 0 # map Suc [0..<?n]"
    by (simp add: upt_conv_Cons map_Suc_upt del: upt_Suc)
  have first: "map (\<lambda>g. dot v ((v # vs) ! g)) [Suc 0..<Suc ?n] = map (dot v) vs"
  proof -
    have "map (\<lambda>g. dot v ((v # vs) ! g)) [Suc 0..<Suc ?n]
            = map (\<lambda>g. dot v ((v # vs) ! g)) (map Suc [0..<?n])"
      by (simp only: map_Suc_upt)
    also have "\<dots> = map (dot v) (map (\<lambda>i. vs ! i) [0..<?n])"
      by (simp add: comp_def)
    also have "\<dots> = map (dot v) vs"
      by (simp only: map_nth)
    finally show ?thesis .
  qed
  have rest: "map (\<lambda>g. dot ((v # vs) ! Suc f) ((v # vs) ! g)) [Suc (Suc f)..<Suc ?n]
                = map (\<lambda>g. dot (vs ! f) (vs ! g)) [Suc f..<?n]" for f
  proof -
    have "[Suc (Suc f)..<Suc ?n] = map Suc [Suc f..<?n]"
      by (simp only: map_Suc_upt)
    then show ?thesis by (simp add: comp_def)
  qed
  show ?thesis
    unfolding brute_force_pairwise_def
    by (simp only: length_Cons up list.map concat.simps sum_list_append map_map comp_def
          nth_Cons_0 first rest)
qed

lemma brute_force_pairwise_rec: "brute_force_pairwise vs = pairs_rec vs"
  by (induction vs) (simp_all add: brute_force_pairwise_Cons, simp add: brute_force_pairwise_def)


lemma dot_nth:
  assumes "length v = d" "length w = d"
  shows "dot v w = sum_list (map (\<lambda>k. v ! k * w ! k) [0..<d])"
proof -
  have "map2 (*) v w = map (\<lambda>k. v ! k * w ! k) [0..<d]"
    using assms by (intro nth_equalityI) simp_all
  then show ?thesis by (simp add: dot_def)
qed

lemma sum_list_swap:
  "sum_list (map (\<lambda>k. a k * sum_list (map (\<lambda>w. w ! k) vs)) ks)
     = sum_list (map (\<lambda>w. sum_list (map (\<lambda>k. a k * w ! k) ks)) vs)"
  for a :: "nat \<Rightarrow> rat"
  by (induction vs) (simp_all add: distrib_left sum_list_addf)

lemma cross_term:
  assumes "length v = d" "\<forall>w \<in> set vs. length w = d"
  shows "sum_list (map (\<lambda>k. v ! k * sum_list (map (\<lambda>w. w ! k) vs)) [0..<d])
           = sum_list (map (dot v) vs)"
proof -
  have "map (dot v) vs = map (\<lambda>w. sum_list (map (\<lambda>k. v ! k * w ! k) [0..<d])) vs"
    using assms by (intro map_cong refl dot_nth) simp_all
  then show ?thesis by (simp only: sum_list_swap)
qed

lemma identity_row:
  assumes "\<forall>v \<in> set vs. length v = d"
  shows "sum_list (map (\<lambda>k. (sum_list (map (\<lambda>v. v ! k) vs)) ^ 2
                              - sum_list (map (\<lambda>v. (v ! k) ^ 2) vs)) [0..<d])
           = 2 * pairs_rec vs"
  using assms
proof (induction vs)
  case Nil
  then show ?case by simp
next
  case (Cons v vs)
  let ?S = "\<lambda>k. sum_list (map (\<lambda>w. w ! k) vs)"
  let ?Q = "\<lambda>k. sum_list (map (\<lambda>w. (w ! k) ^ 2) vs)"
  have len: "length v = d" and rest: "\<forall>w \<in> set vs. length w = d"
    using Cons.prems by simp_all
  have "sum_list (map (\<lambda>k. (v ! k + ?S k) ^ 2 - ((v ! k) ^ 2 + ?Q k)) [0..<d])
          = sum_list (map (\<lambda>k. 2 * (v ! k * ?S k) + (?S k ^ 2 - ?Q k)) [0..<d])"
    by (intro arg_cong[where f = sum_list] map_cong refl) (simp add: power2_sum)
  also have "\<dots> = 2 * sum_list (map (\<lambda>k. v ! k * ?S k) [0..<d])
                    + sum_list (map (\<lambda>k. ?S k ^ 2 - ?Q k) [0..<d])"
    by (simp add: sum_list_addf sum_list_const_mult)
  also have "\<dots> = 2 * sum_list (map (dot v) vs) + 2 * pairs_rec vs"
    using cross_term[OF len rest] Cons.IH[OF rest] by simp
  finally show ?case by simp
qed

lemma interaction_row:
  assumes "\<forall>v \<in> set vs. length v = d"
  shows "map2 (-) (map (\<lambda>a. a ^ 2) (sum_fields d vs))
                  (sum_fields d (map (map (\<lambda>a. a ^ 2)) vs))
           = map (\<lambda>k. (sum_list (map (\<lambda>v. v ! k) vs)) ^ 2
                        - sum_list (map (\<lambda>v. (v ! k) ^ 2) vs)) [0..<d]"
proof -
  have "sum_list (map (\<lambda>v. map (\<lambda>a. a ^ 2) v ! k) vs) = sum_list (map (\<lambda>v. (v ! k) ^ 2) vs)"
    if "k < d" for k
    using assms that by (intro arg_cong[where f = sum_list] map_cong refl) simp
  then show ?thesis
    by (simp add: sum_fields_def map2_map_map comp_def)
qed

lemma forward_elems:
  "elems (FactorizationMachineOperation_forward self x) =
     map (fm_row (reduce_sum self) (dim2 x)) (elems3 x)"
  by (simp add: FactorizationMachineOperation_forward_def Let_def scale_tensor2_def
      torch_sum_dim1_keepdim_def sub_tensor2_def pow2_tensor2_def pow2_tensor3_def
      torch_sum_dim1_def map2_map_map comp_def fm_row_def)

lemma fm_row_brute_force:
  assumes "\<forall>v \<in> set vs. length v = d"
  shows "fm_row True d vs = [brute_force_pairwise vs]"
  using assms by (simp add: fm_row_def interaction_row identity_row brute_force_pairwise_rec)

lemma forward_shape:
  "nrows (FactorizationMachineOperation_forward self x) = dim0 x"
  "ncols (FactorizationMachineOperation_forward self x) = (if reduce_sum self then 1 else dim2 x)"
  by (simp_all add: FactorizationMachineOperation_forward_def Let_def scale_tensor2_def
      torch_sum_dim1_keepdim_def sub_tensor2_def pow2_tensor2_def pow2_tensor3_def
      torch_sum_dim1_def)

lemma forward_brute_force:
  assumes "tensor3_ok x" "reduce_sum self"
  shows "FactorizationMachineOperation_forward self x =
           \<lparr>nrows = dim0 x, ncols = 1,
            elems = map (\<lambda>vs. [brute_force_pairwise vs]) (elems3 x)\<rparr>"
proof -
  have "map (fm_row True (dim2 x)) (elems3 x) = map (\<lambda>vs. [brute_force_pairwise vs]) (elems3 x)"
    using assms by (intro map_cong refl fm_row_brute_force) (simp add: tensor3_ok_def)
  then show ?thesis
    using assms(2) by (intro tensor2.equality) (simp_all add: forward_elems forward_shape)
qed












section \<open>The scoring model\<close>

subsection \<open>Lookups and sums on valid ids\<close>

lemma sequence_map_Inr:
  "\<forall>y \<in> set ys. f y = Inr (g y) \<Longrightarrow> sequence (map f ys) = Inr (map g ys)"
  by (induction ys) simp_all

lemma Embedding_forward_valid:
  assumes "ids_in_range x (nrows w)"
  shows "Embedding_forward w x =
           Inr \<lparr>dim0 = lnrows x, dim1 = lncols x, dim2 = ncols w,
                elems3 = map (map (\<lambda>i. elems w ! nat i)) (lelems x)\<rparr>"
proof -
  have "sequence (map (embedding_row w) r) = Inr (map (\<lambda>i. elems w ! nat i) r)"
    if "r \<in> set (lelems x)" for r
    using assms that by (intro sequence_map_Inr) (simp add: embedding_row_def ids_in_range_def)
  then have "sequence (map (\<lambda>r. sequence (map (embedding_row w) r)) (lelems x))
               = Inr (map (map (\<lambda>i. elems w ! nat i)) (lelems x))"
    by (intro sequence_map_Inr) simp
  then show ?thesis by (simp add: Embedding_forward_def)
qed

lemma mk_tensor2_cong:
  assumes "\<And>i j. i < n \<Longrightarrow> j < m \<Longrightarrow> f i j = g i j"
  shows "mk_tensor2 n m f = mk_tensor2 n m g"
  using assms by (simp add: mk_tensor2_def)

lemma broadcast_dim_1: "broadcast_dim n (Suc 0) = Some n"
  by (simp add: broadcast_dim_def)

lemma broadcast_dim_same: "broadcast_dim n n = Some n"
  by (simp add: broadcast_dim_def)

lemma add_tensor2_Inr:
  assumes "broadcast_dim (nrows s) (nrows t) = Some n"
    and "broadcast_dim (ncols s) (ncols t) = Some m"
    and "\<And>i j. i < n \<Longrightarrow> j < m \<Longrightarrow> broadcast_get s i j + broadcast_get t i j = f i j"
  shows "add_tensor2 s t = Inr (mk_tensor2 n m f)"
proof -
  have "mk_tensor2 n m (\<lambda>i j. broadcast_get s i j + broadcast_get t i j) = mk_tensor2 n m f"
    by (rule mk_tensor2_cong) (rule assms(3))
  then show ?thesis
    by (simp add: add_tensor2_def assms(1,2))
qed

lemma LinearFeatures_forward_valid:
  assumes cols: "ncols (fc l) = 1" and b: "length (bias l) = 1"
    and x: "long_tensor2_ok x"
    and ids: "ids_in_range x (nrows (fc l))"
  shows "LinearFeatures_forward l x =
           Inr (mk_tensor2 (lnrows x) 1 (\<lambda>k j. linear_term l (lelems x ! k)))"
proof -
  let ?s = "torch_sum_dim1 \<lparr>dim0 = lnrows x, dim1 = lncols x, dim2 = ncols (fc l),
                elems3 = map (map (\<lambda>i. elems (fc l) ! nat i)) (lelems x)\<rparr>"
  have s: "nrows ?s = lnrows x" "ncols ?s = 1"
    "elems ?s = map (\<lambda>r. [sum_list (map (\<lambda>i. elems (fc l) ! nat i ! 0) r)]) (lelems x)"
    using cols by (simp_all add: torch_sum_dim1_def sum_fields_def comp_def)
  have len: "length (lelems x) = lnrows x"
    using x by (simp add: long_tensor2_ok_def)
  have get: "broadcast_get ?s k j + broadcast_get (row_tensor (bias l)) k j
               = linear_term l (lelems x ! k)" if "k < lnrows x" "j < 1" for k j
  proof -
    have row: "(if nrows ?s = 1 then 0 else k) = k"
      using that by (simp add: s)
    have col: "(if ncols ?s = 1 then 0 else j) = 0"
      by (simp add: s)
    have "broadcast_get ?s k j = elems ?s ! k ! 0"
      unfolding broadcast_get_def row col ..
    also have "\<dots> = sum_list (map (\<lambda>i. elems (fc l) ! nat i ! 0) (lelems x ! k))"
      using that len by (simp add: s)
    finally have "broadcast_get ?s k j
                    = sum_list (map (\<lambda>i. elems (fc l) ! nat i ! 0) (lelems x ! k))" .
    moreover have "broadcast_get (row_tensor (bias l)) k j = bias l ! 0"
      using b by (simp add: broadcast_get_def row_tensor_def)
    ultimately show ?thesis by (simp add: linear_term_def)
  qed
  have "add_tensor2 ?s (row_tensor (bias l)) =
          Inr (mk_tensor2 (lnrows x) 1 (\<lambda>k j. linear_term l (lelems x ! k)))"
  proof (rule add_tensor2_Inr)
    show "broadcast_dim (nrows ?s) (nrows (row_tensor (bias l))) = Some (lnrows x)"
      by (simp add: s row_tensor_def broadcast_dim_1)
    show "broadcast_dim (ncols ?s) (ncols (row_tensor (bias l))) = Some 1"
      using b by (simp add: s row_tensor_def broadcast_dim_same)
  qed (rule get)
  then show ?thesis
    by (simp add: LinearFeatures_forward_def Embedding_forward_valid[OF ids])
qed


lemma model_forward:
  assumes cols: "ncols (fc (linear self)) = 1" and b: "length (bias (linear self)) = 1"
    and rs: "reduce_sum (fm self)"
    and x: "long_tensor2_ok x"
    and ids: "ids_in_range x (nrows (fc (linear self)))"
    and emb: "call (embedding self) x = Inr emb"
    and ok: "tensor3_ok emb" and batch: "dim0 emb = lnrows x"
  shows "FactorizationMachineModel_forward self x =
           Inr (Rank1 (map (\<lambda>k. linear_term (linear self) (lelems x ! k)
                                  + brute_force_pairwise (elems3 emb ! k)) [0..<lnrows x]))"
proof -
  let ?lin = "mk_tensor2 (lnrows x) 1 (\<lambda>k j. linear_term (linear self) (lelems x ! k))"
  let ?fm = "FactorizationMachineOperation_forward (fm self) emb"
  let ?f = "\<lambda>k j. linear_term (linear self) (lelems x ! k) + brute_force_pairwise (elems3 emb ! k)"
  have lin: "LinearFeatures_forward (linear self) x = Inr ?lin"
    by (rule LinearFeatures_forward_valid[OF cols b x ids])
  have fm: "?fm = \<lparr>nrows = lnrows x, ncols = 1,
                    elems = map (\<lambda>vs. [brute_force_pairwise vs]) (elems3 emb)\<rparr>"
    using forward_brute_force[OF ok rs] batch by simp
  have len: "length (elems3 emb) = lnrows x"
    using ok batch by (simp add: tensor3_ok_def)
  have get: "broadcast_get ?lin k j + broadcast_get ?fm k j = ?f k j"
    if "k < lnrows x" "j < 1" for k j
  proof -
    have "(if lnrows x = 1 then 0 else k) = k"
      using that by simp
    then have "broadcast_get ?lin k j = linear_term (linear self) (lelems x ! k)"
      and "broadcast_get ?fm k j = brute_force_pairwise (elems3 emb ! k)"
      using that len by (simp_all add: broadcast_get_def fm mk_tensor2_def)
    then show ?thesis by simp
  qed
  have "add_tensor2 ?lin ?fm = Inr (mk_tensor2 (lnrows x) 1 ?f)"
  proof (rule add_tensor2_Inr)
    show "broadcast_dim (nrows ?lin) (nrows ?fm) = Some (lnrows x)"
      by (simp add: fm mk_tensor2_def broadcast_dim_same)
    show "broadcast_dim (ncols ?lin) (ncols ?fm) = Some 1"
      by (simp add: fm mk_tensor2_def broadcast_dim_same)
  qed (rule get)
  moreover have "squeeze1 (mk_tensor2 (lnrows x) 1 ?f) = Rank1 (map (\<lambda>k. ?f k 0) [0..<lnrows x])"
    by (simp add: squeeze1_def mk_tensor2_def comp_def)
  ultimately show ?thesis
    by (simp add: FactorizationMachineModel_forward_def lin emb)
qed

text \<open>
  Claim C2. For every batch of fixed-length rows of field ids,
  \<^verbatim>\<open>FactorizationMachineModel.forward\<close> returns exactly one scalar per row: the linear
  term of the row (the sum of the weights of its ids plus the shared bias) plus the
  pairwise interaction of the embeddings looked up for the row. Nothing is applied to the
  sum afterwards. The ids are ids of the table (\<open>ids_in_range\<close>), the model has the shapes
  \<^verbatim>\<open>__init__\<close> gives it (one weight per id, one bias, \<^verbatim>\<open>reduce_sum\<close> set), and \<open>emb\<close>
  is what the embedding source returns for the batch.
\<close>

theorem model_forward_linear_plus_interaction:
  assumes "ncols (fc (linear self)) = 1" and "length (bias (linear self)) = 1"
    and "reduce_sum (fm self)"
    and "long_tensor2_ok x"
    and "ids_in_range x (nrows (fc (linear self)))"
    and "call (embedding self) x = Inr emb"
    and "tensor3_ok emb" and "dim0 emb = lnrows x"
  shows "\<exists>scores.
           FactorizationMachineModel_forward self x = Inr (Rank1 scores) \<and>
           length scores = lnrows x \<and>
           scores = map (\<lambda>k. linear_term (linear self) (lelems x ! k)
                              + brute_force_pairwise (elems3 emb ! k)) [0..<lnrows x]"
  using model_forward[OF assms] by simp

theorem model_forward_linear_plus_interaction_witness:
  "ncols (fc (linear example_model)) = 1 \<and> length (bias (linear example_model)) = 1 \<and>
   reduce_sum (fm example_model) \<and> long_tensor2_ok example_rows \<and>
   ids_in_range example_rows (nrows (fc (linear example_model))) \<and>
   call (embedding example_model) example_rows = Inr example_embeddings \<and>
   tensor3_ok example_embeddings \<and> dim0 example_embeddings = lnrows example_rows \<and>
   FactorizationMachineModel_forward example_model example_rows = Inr (Rank1 [29 / 2, 43 / 2])"
proof -
  have h: "ncols (fc (linear example_model)) = 1" "length (bias (linear example_model)) = 1"
    "reduce_sum (fm example_model)" "long_tensor2_ok example_rows"
    "ids_in_range example_rows (nrows (fc (linear example_model)))"
    "tensor3_ok example_embeddings" "dim0 example_embeddings = lnrows example_rows"
    by (simp_all add: example_model_def example_rows_def example_embeddings_def
        long_tensor2_ok_def ids_in_range_def tensor3_ok_def)
  have c: "call (embedding example_model) example_rows = Inr example_embeddings"
    by (simp add: example_model_def example_rows_def example_embeddings_def
        Embedding_source_def Embedding_forward_def embedding_row_def)
  have "\<exists>scores.
          FactorizationMachineModel_forward example_model example_rows = Inr (Rank1 scores) \<and>
          length scores = lnrows example_rows \<and>
          scores = map (\<lambda>k. linear_term (linear example_model) (lelems example_rows ! k)
                             + brute_force_pairwise (elems3 example_embeddings ! k))
                     [0..<lnrows example_rows]"
    by (rule model_forward_linear_plus_interaction[OF h(1-5) c h(6,7)])
  then have "FactorizationMachineModel_forward example_model example_rows
          = Inr (Rank1 (map (\<lambda>k. linear_term (linear example_model) (lelems example_rows ! k)
                             + brute_force_pairwise (elems3 example_embeddings ! k))
                     [0..<lnrows example_rows]))"
    by blast
  also have "map (\<lambda>k. linear_term (linear example_model) (lelems example_rows ! k)
                             + brute_force_pairwise (elems3 example_embeddings ! k))
                     [0..<lnrows example_rows] = [29 / 2, 43 / 2]"
    by (simp add: example_model_def example_rows_def example_embeddings_def linear_term_def
        brute_force_pairwise_def dot_def upt_conv_Cons)
  finally show ?thesis
    using h c by blast
qed

subsection \<open>The embedding matrix\<close>

lemma mk_tensor2_ok: "tensor2_ok (mk_tensor2 n m f)"
  by (simp add: tensor2_ok_def mk_tensor2_def)

lemma mk_tensor2_shape: "shape2 (mk_tensor2 n m f) = (n, m)"
  by (simp add: shape2_def mk_tensor2_def)

lemma transpose_tensor2_ok: "tensor2_ok t \<Longrightarrow> tensor2_ok (transpose_tensor2 t)"
  by (simp add: tensor2_ok_def transpose_tensor2_def)

lemma transpose_tensor2_shape: "shape2 (transpose_tensor2 t) = (ncols t, nrows t)"
  by (simp add: shape2_def transpose_tensor2_def)

lemma GraphModel_weight_shape:
  "shape2 (GraphModel_get_embedding_weight
             (GraphModel_init rnd field_dim embed_dim feats edges attention))
     = (field_dim, if attention then 8 * embed_dim else embed_dim)"
  by (simp add: GraphModel_get_embedding_weight_def GraphModel_init_def GATConv_init_def
      GCNConv_init_def transpose_tensor2_shape mk_tensor2_shape)
     (simp add: mk_tensor2_def)

lemma GraphModel_weight_ok:
  "tensor2_ok (GraphModel_get_embedding_weight
             (GraphModel_init rnd field_dim embed_dim feats edges attention))"
  by (simp add: GraphModel_get_embedding_weight_def GraphModel_init_def GATConv_init_def
      GCNConv_init_def transpose_tensor2_ok mk_tensor2_ok)

lemma init_weight:
  "FactorizationMachineModel_get_embedding_weight
     (FactorizationMachineModel_init conv iv field_dim embed_dim mat attention)
   = Inr (case mat of
            None \<Rightarrow> mk_tensor2 field_dim embed_dim (embedding_values iv)
          | Some m \<Rightarrow> GraphModel_get_embedding_weight
                (GraphModel_init (conv_values iv) field_dim embed_dim
                   (sparse_scipy_matrix_to_tensor (sp_identity (fst (sp_shape m))))
                   (fst (from_scipy_sparse_matrix m)) attention))"
  by (simp add: FactorizationMachineModel_get_embedding_weight_def
      FactorizationMachineModel_init_def Embedding_source_def GraphModel_source_def Let_def
      split: option.split)


text \<open>
  Claim C3, amended. For a model constructed with \<open>field_dim\<close> and \<open>embed_dim\<close>,
  \<^verbatim>\<open>get_embedding_weight()\<close> returns a matrix with \<open>field_dim\<close> rows. It has \<open>embed_dim\<close>
  columns for the plain table and for the graph convolution without attention, and
  \<open>8 * embed_dim\<close> columns for the graph convolution with attention, whose eight heads are
  concatenated.
\<close>

theorem get_embedding_weight_shape:
  "\<exists>w. FactorizationMachineModel_get_embedding_weight
          (FactorizationMachineModel_init conv iv field_dim embed_dim mat attention) = Inr w \<and>
        tensor2_ok w \<and>
        shape2 w = (field_dim, if mat \<noteq> None \<and> attention then 8 * embed_dim else embed_dim)"
  unfolding init_weight
  by (cases mat) (simp_all add: mk_tensor2_ok mk_tensor2_shape GraphModel_weight_ok
      GraphModel_weight_shape)

theorem get_embedding_weight_shape_witness:
  "\<exists>w. FactorizationMachineModel_get_embedding_weight
          (FactorizationMachineModel_init no_convolution zero_values 2 1 (Some two_node_graph)
             False) = Inr w \<and>
        tensor2_ok w \<and> shape2 w = (2, 1)"
  using get_embedding_weight_shape[of no_convolution zero_values 2 1 "Some two_node_graph" False]
  by simp

text \<open>With attention, a model of two ids and embeddings of length one has a matrix of shape
  \<open>(2, 8)\<close>, not \<open>(2, 1)\<close>.\<close>

theorem get_embedding_weight_shape_counterexample:
  "map_sum id shape2
     (FactorizationMachineModel_get_embedding_weight
        (FactorizationMachineModel_init no_convolution zero_values 2 1 (Some two_node_graph) True))
     = Inr (2, 8) \<and>
   map_sum id shape2
     (FactorizationMachineModel_get_embedding_weight
        (FactorizationMachineModel_init no_convolution zero_values 2 1 (Some two_node_graph) True))
     \<noteq> Inr (2, 1)"
  by (simp add: init_weight GraphModel_weight_shape)

text \<open>
  Claim C4. \<^verbatim>\<open>FactorizationMachineModel.get_embedding_weight()\<close> fails with
  \<^verbatim>\<open>UnsupportedOperation\<close> exactly when the embedding source has neither a
  \<^verbatim>\<open>get_embedding_weight\<close> nor a \<^verbatim>\<open>weight\<close>; for the two sources \<^verbatim>\<open>__init__\<close> builds
  (the plain table, and the graph convolution with or without attention) it returns a
  matrix.
\<close>

theorem get_embedding_weight_unsupported:
  "(FactorizationMachineModel_get_embedding_weight self = Inl UnsupportedOperation \<longleftrightarrow>
      attr_get_embedding_weight (embedding self) = None \<and> attr_weight (embedding self) = None) \<and>
   (\<forall>e. FactorizationMachineModel_get_embedding_weight self = Inl e \<longrightarrow>
      e = UnsupportedOperation) \<and>
   (\<exists>w. FactorizationMachineModel_get_embedding_weight
          (FactorizationMachineModel_init conv iv field_dim embed_dim mat attention) = Inr w)"
  by (simp add: init_weight)
     (simp add: FactorizationMachineModel_get_embedding_weight_def split: option.split)

theorem get_embedding_weight_unsupported_witness:
  "attr_get_embedding_weight (embedding bare_model) = None \<and>
   attr_weight (embedding bare_model) = None \<and>
   FactorizationMachineModel_get_embedding_weight bare_model = Inl UnsupportedOperation"
proof -
  have h: "attr_get_embedding_weight (embedding bare_model) = None \<and>
           attr_weight (embedding bare_model) = None"
    by (simp add: bare_model_def bare_source_def)
  then have "FactorizationMachineModel_get_embedding_weight bare_model = Inl UnsupportedOperation"
    using get_embedding_weight_unsupported[of bare_model] by blast
  then show ?thesis
    using h by blast
qed

section \<open>Sparse matrices and the graph embedding\<close>

subsection \<open>Entries of coalesced and converted matrices\<close>

lemma entry_at_absent:
  assumes "(i, j) \<notin> set idx"
  shows "entry_at idx vals i j = 0"
proof -
  have "filter (\<lambda>kv. fst kv = (i, j)) (zip idx vals) = []"
    using assms by (auto simp: filter_empty_conv dest: set_zip_leftD)
  then show ?thesis by (simp add: entry_at_def)
qed

lemma entry_at_distinct:
  assumes "distinct keys"
  shows "entry_at keys (map g keys) i j = (if (i, j) \<in> set keys then g (i, j) else 0)"
  using assms
proof (induction keys)
  case Nil
  then show ?case by (simp add: entry_at_def)
next
  case (Cons k keys)
  have step: "entry_at (k # keys) (g k # map g keys) i j
                = (if k = (i, j) then g k else 0) + entry_at keys (map g keys) i j"
    by (simp add: entry_at_def)
  show ?case
    using Cons by (auto simp: step)
qed

lemma coalesce_entry:
  "st_entry (coalesce t) i j = st_entry t i j"
proof -
  let ?keys = "sort_key (\<lambda>k. fst k * snd (st_size t) + snd k) (remdups (st_indices t))"
  have d: "distinct ?keys" and s: "set ?keys = set (st_indices t)"
    by simp_all
  have "st_entry (coalesce t) i j
          = entry_at ?keys (map (\<lambda>k. entry_at (st_indices t) (st_values t) (fst k) (snd k)) ?keys) i j"
    by (simp add: st_entry_def coalesce_def Let_def)
  also have "\<dots> = (if (i, j) \<in> set ?keys then entry_at (st_indices t) (st_values t) i j else 0)"
    by (simp only: entry_at_distinct[OF d] fst_conv snd_conv)
  also have "\<dots> = entry_at (st_indices t) (st_values t) i j"
    using entry_at_absent[of i j "st_indices t" "st_values t"] by (simp only: s split: if_split) simp
  finally show ?thesis by (simp add: st_entry_def)
qed

lemma fold_max_Max: "fold max xs (a::nat) = Max (insert a (set xs))"
  using Max.set_eq_fold[of a xs] by simp

lemma to_tensor_entry:
  "st_entry (sparse_scipy_matrix_to_tensor m) i j = sp_entry m i j"
  by (simp add: st_entry_def sp_entry_def sparse_scipy_matrix_to_tensor_def)


lemma coalesce_indices:
  "set (st_indices (coalesce t)) = set (st_indices t)"
  "length (st_values (coalesce t)) = length (st_indices (coalesce t))"
  by (simp_all add: coalesce_def Let_def)

lemma to_scipy_entry:
  assumes "to_scipy_sparse_matrix keys vals = Inr m'"
  shows "sp_entry m' i j = entry_at keys vals i j"
  using assms
  by (auto simp: to_scipy_sparse_matrix_def sp_entry_def zip_map_fst_snd split: sum.splits)

lemma num_nodes_Max:
  assumes "keys \<noteq> []"
  shows "maybe_num_nodes keys = Inr (Suc (Max (fst ` set keys \<union> snd ` set keys)))"
proof -
  have "fold max (map fst keys @ map snd keys) 0
          = Max (insert 0 (set (map fst keys @ map snd keys)))"
    by (rule fold_max_Max)
  also have "\<dots> = Max (insert 0 (fst ` set keys \<union> snd ` set keys))"
    by (simp only: set_append set_map)
  also have "\<dots> = Max (fst ` set keys \<union> snd ` set keys)"
    using assms by (subst Max_insert) simp_all
  finally show ?thesis
    using assms by (simp add: maybe_num_nodes_def)
qed

lemma round_trip:
  assumes ok: "scipy_sparse_ok m" and ne: "sp_data m \<noteq> []"
  shows "\<exists>m'. sparse_tensor_to_scipy_matrix (sparse_scipy_matrix_to_tensor m) = Inr m' \<and>
              (\<forall>i j. sp_entry m' i j = sp_entry m i j) \<and>
              sp_shape m' = (Suc (Max (set (sp_row m) \<union> set (sp_col m))),
                             Suc (Max (set (sp_row m) \<union> set (sp_col m))))"
proof -
  let ?t = "sparse_scipy_matrix_to_tensor m"
  let ?c = "coalesce ?t"
  let ?N = "Suc (Max (set (sp_row m) \<union> set (sp_col m)))"
  have len: "length (sp_row m) = length (sp_col m)" and rne: "sp_row m \<noteq> []"
    using ok ne by (auto simp: scipy_sparse_ok_def)
  have idx: "st_indices ?t = zip (sp_row m) (sp_col m)"
    by (simp add: sparse_scipy_matrix_to_tensor_def)
  have keys: "set (st_indices ?c) = set (zip (sp_row m) (sp_col m))"
    by (simp add: coalesce_indices idx)
  have "zip (sp_row m) (sp_col m) \<noteq> []"
    using len rne by (cases "sp_row m"; cases "sp_col m") simp_all
  then have kne: "st_indices ?c \<noteq> []"
    using keys by (metis set_empty)
  have "fst ` set (zip (sp_row m) (sp_col m)) = set (sp_row m)"
    and "snd ` set (zip (sp_row m) (sp_col m)) = set (sp_col m)"
    using len by (metis map_fst_zip set_map, metis len map_snd_zip set_map)
  then have N: "maybe_num_nodes (st_indices ?c) = Inr ?N"
    by (simp add: num_nodes_Max[OF kne] keys)
  define m' where "m' = \<lparr>sp_shape = (?N, ?N), sp_row = map fst (st_indices ?c),
                      sp_col = map snd (st_indices ?c), sp_data = st_values ?c\<rparr>"
  have rt: "sparse_tensor_to_scipy_matrix ?t = Inr m'"
    and rt': "to_scipy_sparse_matrix (st_indices ?c) (st_values ?c) = Inr m'"
    by (simp_all add: sparse_tensor_to_scipy_matrix_def Let_def to_scipy_sparse_matrix_def N m'_def)
  have "sp_entry m' i j = sp_entry m i j" for i j
  proof -
    have "sp_entry m' i j = st_entry ?c i j"
      by (simp add: to_scipy_entry[OF rt'] st_entry_def)
    also have "\<dots> = sp_entry m i j"
      by (simp add: coalesce_entry to_tensor_entry)
    finally show ?thesis .
  qed
  moreover have "sp_shape m' = (?N, ?N)"
    by (simp add: m'_def)
  ultimately show ?thesis
    using rt by blast
qed

lemma identity_entry:
  "st_entry (sparse_scipy_matrix_to_tensor (sp_identity n)) i j = (if i = j \<and> i < n then 1 else 0)"
proof -
  let ?keys = "map (\<lambda>k. (k, k)) [0..<n]"
  have z: "zip [0..<n] [0..<n] = ?keys"
    by (simp add: zip_same_conv_map)
  have r: "replicate n (1::rat) = map (\<lambda>k. 1) ?keys"
    by (simp add: map_replicate_const)
  have d: "distinct ?keys"
    by (simp add: distinct_map inj_on_def)
  have "st_entry (sparse_scipy_matrix_to_tensor (sp_identity n)) i j
          = entry_at ?keys (map (\<lambda>k. 1) ?keys) i j"
    by (simp only: st_entry_def sparse_scipy_matrix_to_tensor_def sp_identity_def Let_def
        sparse_tensor.simps scipy_sparse.simps z r[symmetric])
  also have "\<dots> = (if (i, j) \<in> set ?keys then 1 else 0)"
    by (rule entry_at_distinct[OF d])
  also have "\<dots> = (if i = j \<and> i < n then 1 else 0)"
    by auto
  finally show ?thesis .
qed


text \<open>
  Claim C9, amended. For every scipy sparse matrix \<open>m\<close> with at least one stored entry,
  \<^verbatim>\<open>sparse_tensor_to_scipy_matrix(sparse_scipy_matrix_to_tensor(m))\<close> has the same entries
  as \<open>m\<close> (the values stored at one position added up), and it is a square matrix of
  size \<open>N\<close>, one more than the largest row or column index of a stored entry: the shape
  of \<open>m\<close> is not kept, and the two shapes agree only when \<open>m\<close> itself is \<open>N \<times> N\<close>.
\<close>

theorem sparse_round_trip:
  assumes "scipy_sparse_ok m" and "sp_data m \<noteq> []"
  shows "\<exists>m'. sparse_tensor_to_scipy_matrix (sparse_scipy_matrix_to_tensor m) = Inr m' \<and>
              (\<forall>i j. sp_entry m' i j = sp_entry m i j) \<and>
              sp_shape m' = (Suc (Max (set (sp_row m) \<union> set (sp_col m))),
                             Suc (Max (set (sp_row m) \<union> set (sp_col m))))"
  using assms by (rule round_trip)

theorem sparse_round_trip_witness:
  "scipy_sparse_ok stored_twice \<and> sp_data stored_twice \<noteq> [] \<and>
   (\<exists>m'. sparse_tensor_to_scipy_matrix (sparse_scipy_matrix_to_tensor stored_twice) = Inr m' \<and>
          sp_entry m' 2 1 = 4 \<and> sp_shape m' = (3, 3))"
proof -
  have ok: "scipy_sparse_ok stored_twice" and ne: "sp_data stored_twice \<noteq> []"
    by (simp_all add: stored_twice_def scipy_sparse_ok_def)
  have e: "sp_entry stored_twice 2 1 = 4"
    by (simp add: stored_twice_def sp_entry_def entry_at_def)
  have n: "Suc (Max (set (sp_row stored_twice) \<union> set (sp_col stored_twice))) = 3"
    by (simp add: stored_twice_def)
  from sparse_round_trip[OF ok ne] obtain m' where
    "sparse_tensor_to_scipy_matrix (sparse_scipy_matrix_to_tensor stored_twice) = Inr m'"
    "\<forall>i j. sp_entry m' i j = sp_entry stored_twice i j"
    "sp_shape m' = (Suc (Max (set (sp_row stored_twice) \<union> set (sp_col stored_twice))),
                    Suc (Max (set (sp_row stored_twice) \<union> set (sp_col stored_twice))))"
    by blast
  then have "sparse_tensor_to_scipy_matrix (sparse_scipy_matrix_to_tensor stored_twice) = Inr m' \<and>
          sp_entry m' 2 1 = 4 \<and> sp_shape m' = (3, 3)"
    using e n by simp
  then show ?thesis
    using ok ne by blast
qed

text \<open>A matrix of shape \<open>(3, 3)\<close> with its one entry at \<open>(0, 1)\<close> comes back with shape
  \<open>(2, 2)\<close>.\<close>

theorem sparse_round_trip_counterexample:
  "map_sum id sp_shape
     (sparse_tensor_to_scipy_matrix (sparse_scipy_matrix_to_tensor trailing_empty)) = Inr (2, 2) \<and>
   sp_shape trailing_empty = (3, 3) \<and>
   map_sum id sp_shape
     (sparse_tensor_to_scipy_matrix (sparse_scipy_matrix_to_tensor trailing_empty))
     \<noteq> Inr (sp_shape trailing_empty)"
  by (simp add: trailing_empty_def sparse_tensor_to_scipy_matrix_def
      sparse_scipy_matrix_to_tensor_def coalesce_def to_scipy_sparse_matrix_def
      maybe_num_nodes_def Let_def)

subsection \<open>The graph embedding\<close>

lemma init_graph_embedding:
  "embedding (FactorizationMachineModel_init conv iv field_dim embed_dim (Some m) attention)
     = GraphModel_source conv
         (GraphModel_init (conv_values iv) field_dim embed_dim
            (sparse_scipy_matrix_to_tensor (sp_identity (fst (sp_shape m))))
            (zip (sp_row m) (sp_col m)) attention)"
  by (simp add: FactorizationMachineModel_init_def Let_def from_scipy_sparse_matrix_def)

lemma graph_lookup:
  assumes "sp_shape m = (n, n)"
  shows "\<exists>g. embedding (FactorizationMachineModel_init conv iv field_dim embed_dim (Some m)
                attention) = GraphModel_source conv g \<and>
             st_size (features g) = (n, n) \<and>
             (\<forall>i j. st_entry (features g) i j = (if i = j \<and> i < n then 1 else 0)) \<and>
             matrix g = zip (sp_row m) (sp_col m) \<and>
             (\<forall>x. call (embedding (FactorizationMachineModel_init conv iv field_dim embed_dim
                      (Some m) attention)) x
                    = (case conv (gcn g) (features g) (matrix g) of
                         Inl e \<Rightarrow> Inl e
                       | Inr h \<Rightarrow> index_rows h x))"
proof -
  let ?g = "GraphModel_init (conv_values iv) field_dim embed_dim
            (sparse_scipy_matrix_to_tensor (sp_identity (fst (sp_shape m))))
            (zip (sp_row m) (sp_col m)) attention"
  have f: "features ?g = sparse_scipy_matrix_to_tensor (sp_identity n)"
    and mx: "matrix ?g = zip (sp_row m) (sp_col m)"
    using assms by (simp_all add: GraphModel_init_def)
  have "st_size (features ?g) = (n, n)"
    by (simp only: f) (simp add: sparse_scipy_matrix_to_tensor_def sp_identity_def)
  moreover have "\<forall>i j. st_entry (features ?g) i j = (if i = j \<and> i < n then 1 else 0)"
    by (simp only: f identity_entry) simp
  moreover have "\<forall>x. call (GraphModel_source conv ?g) x
                    = (case conv (gcn ?g) (features ?g) (matrix ?g) of
                         Inl e \<Rightarrow> Inl e
                       | Inr h \<Rightarrow> index_rows h x)"
    by (simp add: GraphModel_source_def GraphModel_forward_def)
  ultimately show ?thesis
    unfolding init_graph_embedding using mx by blast
qed

text \<open>
  Claim C7. In the graph variant, for an adjacency matrix over \<open>n\<close> ids, the node
  features the model is built with are the identity matrix of size \<open>n\<close> (the feature
  of a node is its own indicator), the edges are the stored positions of the adjacency
  matrix, and looking up a batch of ids \<open>x\<close> is one pass of the convolution over these
  features and edges, followed by taking the rows \<open>x\<close> of the result.
\<close>

theorem graph_embedding_lookup:
  assumes "sp_shape m = (n, n)"
  shows "\<exists>g. embedding (FactorizationMachineModel_init conv iv field_dim embed_dim (Some m)
                attention) = GraphModel_source conv g \<and>
             st_size (features g) = (n, n) \<and>
             (\<forall>i j. st_entry (features g) i j = (if i = j \<and> i < n then 1 else 0)) \<and>
             matrix g = zip (sp_row m) (sp_col m) \<and>
             (\<forall>x. call (embedding (FactorizationMachineModel_init conv iv field_dim embed_dim
                      (Some m) attention)) x
                    = (case conv (gcn g) (features g) (matrix g) of
                         Inl e \<Rightarrow> Inl e
                       | Inr h \<Rightarrow> index_rows h x))"
  using assms by (rule graph_lookup)

theorem graph_embedding_lookup_witness:
  "sp_shape two_node_graph = (2, 2) \<and>
   call (embedding (FactorizationMachineModel_init fixed_convolution zero_values 2 1
           (Some two_node_graph) False)) node_rows
     = Inr \<lparr>dim0 = 1, dim1 = 2, dim2 = 1, elems3 = [[[9], [7]]]\<rparr>"
proof -
  have s: "sp_shape two_node_graph = (2, 2)"
    by (simp add: two_node_graph_def)
  from graph_embedding_lookup[OF s, of fixed_convolution zero_values 2 1 False]
  obtain g :: GraphModel where
    "call (embedding (FactorizationMachineModel_init fixed_convolution zero_values 2 1
             (Some two_node_graph) False)) node_rows
       = (case fixed_convolution (gcn g) (features g) (matrix g) of
            Inl e \<Rightarrow> Inl e
          | Inr h \<Rightarrow> index_rows h node_rows)"
    by blast
  also have "\<dots> = Inr \<lparr>dim0 = 1, dim1 = 2, dim2 = 1, elems3 = [[[9], [7]]]\<rparr>"
    by (simp add: fixed_convolution_def index_rows_def index_row_def node_rows_def)
  finally show ?thesis
    using s by blast
qed

section \<open>The recommend command and its failures\<close>

lemma served_step:
  assumes "query_served finder recommender topk q"
  shows "\<exists>r recs. \<forall>rest logged.
           recommend_loop finder recommender topk (q # rest) logged
             = recommend_loop finder recommender topk rest
                 (logged @ [Info_found r, Info_looking_for_recommendations]
                    @ map (\<lambda>(item, rating). Info_rating rating item) recs)"
proof -
  obtain r where r: "finder q = Inr r"
    using assms by (cases "finder q") (simp_all add: query_served_def)
  obtain recs where recs: "recommender (item_id r) topk = Inr recs"
    using assms r by (cases "recommender (item_id r) topk") (simp_all add: query_served_def)
  have "recommend_loop finder recommender topk (q # rest) logged
             = recommend_loop finder recommender topk rest
                 (logged @ [Info_found r, Info_looking_for_recommendations]
                    @ map (\<lambda>(item, rating). Info_rating rating item) recs)" for rest logged
    by (simp add: r recs)
  then show ?thesis by blast
qed

lemma loop_served:
  assumes "\<forall>q \<in> set before. query_served finder recommender topk q"
  shows "snd (recommend_loop finder recommender topk before logged) = None \<and>
         recommend_loop finder recommender topk (before @ rest) logged
           = recommend_loop finder recommender topk rest
               (fst (recommend_loop finder recommender topk before logged))"
  using assms
proof (induction before arbitrary: logged)
  case Nil
  then show ?case by simp
next
  case (Cons q before)
  from Cons.prems have q: "query_served finder recommender topk q"
    and rest: "\<forall>q \<in> set before. query_served finder recommender topk q"
    by simp_all
  from served_step[OF q] obtain r recs where
    step: "\<And>rest logged. recommend_loop finder recommender topk (q # rest) logged
        = recommend_loop finder recommender topk rest
            (logged @ [Info_found r, Info_looking_for_recommendations]
               @ map (\<lambda>(item, rating). Info_rating rating item) recs)"
    by blast
  show ?case
    using Cons.IH[OF rest] by (simp only: append_Cons step) 
qed

lemma loop_fails:
  assumes "query_fails finder recommender topk q e"
  shows "snd (recommend_loop finder recommender topk (q # rest) logged) = Some e \<and>
         recommend_loop finder recommender topk (q # rest) logged
           = recommend_loop finder recommender topk [q] logged"
proof (cases "finder q")
  case (Inl e')
  then show ?thesis
    using assms by (simp add: query_fails_def)
next
  case (Inr r)
  then obtain e' where "recommender (item_id r) topk = Inl e'" "e' = e"
    using assms by (cases "recommender (item_id r) topk") (simp_all add: query_fails_def)
  then show ?thesis
    using Inr by simp
qed

lemma loop_stops:
  assumes "\<forall>q \<in> set before. query_served finder recommender topk q"
    and "query_fails finder recommender topk q e"
  shows "recommend_loop finder recommender topk (before @ q # rest) logged
           = recommend_loop finder recommender topk (before @ [q]) logged"
    and "snd (recommend_loop finder recommender topk (before @ q # rest) logged) = Some e"
proof -
  let ?l = "fst (recommend_loop finder recommender topk before logged)"
  have a: "recommend_loop finder recommender topk (before @ ys) logged
             = recommend_loop finder recommender topk ys ?l" for ys
    using loop_served[OF assms(1)] by blast
  have b: "recommend_loop finder recommender topk (q # rest) ?l
             = recommend_loop finder recommender topk [q] ?l"
    and c: "snd (recommend_loop finder recommender topk (q # rest) ?l) = Some e"
    using loop_fails[OF assms(2)] by blast+
  show "recommend_loop finder recommender topk (before @ q # rest) logged
           = recommend_loop finder recommender topk (before @ [q]) logged"
    by (simp only: a b)
  show "snd (recommend_loop finder recommender topk (before @ q # rest) logged) = Some e"
    by (simp only: a c)
qed

lemma outcome_of_run:
  "snd (case p of (logged, None) \<Rightarrow> (logged, Returned_None)
                | (logged, Some e) \<Rightarrow> (logged, Raised e))
     = (case snd p of None \<Rightarrow> Returned_None | Some e \<Rightarrow> Raised e)"
  by (cases p) (simp split: option.split)

lemma recommend_loaded:
  fixes fields :: "string list"
  assumes "load_model c path = Inr (Some model, idrange, items)"
  shows "recommend c path item_names fields topk =
           (case recommend_loop (Finder c (dropna c items) fields)
                   (Recommender c idrange (dropna c items) model) topk item_names
                   [Info_reading_model_file, Info_loaded_model] of
              (logged, None) \<Rightarrow> (logged, Returned_None)
            | (logged, Some e) \<Rightarrow> (logged, Raised e))"
  by (simp add: recommend_def assms Let_def)

lemma recommend_stops:
  fixes fields :: "string list"
  assumes "load_model c path = Inr (Some model, idrange, items)"
    and "\<forall>q \<in> set before.
           query_served (Finder c (dropna c items) fields)
             (Recommender c idrange (dropna c items) model) topk q"
    and "query_fails (Finder c (dropna c items) fields)
             (Recommender c idrange (dropna c items) model) topk q e"
  shows "recommend c path (before @ q # rest) fields topk
           = recommend c path (before @ [q]) fields topk"
    and "snd (recommend c path (before @ q # rest) fields topk) = Raised e"
proof -
  note l = loop_stops[OF assms(2,3)]
  have "recommend_loop (Finder c (dropna c items) fields)
          (Recommender c idrange (dropna c items) model) topk (before @ q # rest)
          [Info_reading_model_file, Info_loaded_model]
        = recommend_loop (Finder c (dropna c items) fields)
          (Recommender c idrange (dropna c items) model) topk (before @ [q])
          [Info_reading_model_file, Info_loaded_model]"
    by (rule l(1))
  then show "recommend c path (before @ q # rest) fields topk
           = recommend c path (before @ [q]) fields topk"
    by (simp only: recommend_loaded[OF assms(1)])
  have "snd (recommend c path (before @ q # rest) fields topk)
          = (case snd (recommend_loop (Finder c (dropna c items) fields)
                   (Recommender c idrange (dropna c items) model) topk (before @ q # rest)
                   [Info_reading_model_file, Info_loaded_model]) of
               None \<Rightarrow> Returned_None | Some e \<Rightarrow> Raised e)"
    by (simp only: recommend_loaded[OF assms(1)] outcome_of_run)
  then show "snd (recommend c path (before @ q # rest) fields topk) = Raised e"
    by (simp only: l(2) option.case)
qed

lemma recommend_load_failure:
  fixes fields :: "string list"
  assumes "load_model c path = Inl e"
  shows "recommend c path item_names fields topk
           = ([Info_reading_model_file, Error_failed_to_load_model_file], Returned_False)"
  by (simp add: recommend_def assms)


text \<open>
  Claim C5, amended. In one invocation of the recommend command, a failure to load the
  model file is caught and logged, and the command returns without serving any query. A
  failure of one query (the finder does not find the item, or the recommender raises) is
  not caught: when the queries before it are served, the command is left by that
  exception, and the queries after the failing one are not processed, whatever they are.
\<close>

theorem recommend_failures:
  fixes fields :: "string list"
  shows "(load_model c path = Inl e0 \<longrightarrow>
            recommend c path item_names fields topk
              = ([Info_reading_model_file, Error_failed_to_load_model_file], Returned_False)) \<and>
         (load_model c path = Inr (Some model, idrange, items) \<and>
          (\<forall>q \<in> set before.
             query_served (Finder c (dropna c items) fields)
               (Recommender c idrange (dropna c items) model) topk q) \<and>
          query_fails (Finder c (dropna c items) fields)
               (Recommender c idrange (dropna c items) model) topk q e \<longrightarrow>
            snd (recommend c path (before @ q # rest) fields topk) = Raised e \<and>
            recommend c path (before @ q # rest) fields topk
              = recommend c path (before @ [q]) fields topk)"
proof (intro conjI impI)
  assume "load_model c path = Inl e0"
  then show "recommend c path item_names fields topk
              = ([Info_reading_model_file, Error_failed_to_load_model_file], Returned_False)"
    by (rule recommend_load_failure)
next
  assume a: "load_model c path = Inr (Some model, idrange, items) \<and>
          (\<forall>q \<in> set before.
             query_served (Finder c (dropna c items) fields)
               (Recommender c idrange (dropna c items) model) topk q) \<and>
          query_fails (Finder c (dropna c items) fields)
               (Recommender c idrange (dropna c items) model) topk q e"
  then have l: "load_model c path = Inr (Some model, idrange, items)"
    and sv: "\<forall>q \<in> set before.
             query_served (Finder c (dropna c items) fields)
               (Recommender c idrange (dropna c items) model) topk q"
    and fl: "query_fails (Finder c (dropna c items) fields)
               (Recommender c idrange (dropna c items) model) topk q e"
    by blast+
  show "snd (recommend c path (before @ q # rest) fields topk) = Raised e"
    by (rule recommend_stops(2)[OF l sv fl])
  show "recommend c path (before @ q # rest) fields topk
              = recommend c path (before @ [q]) fields topk"
    by (rule recommend_stops(1)[OF l sv fl])
qed

theorem recommend_failures_witness:
  "load_model unreadable_cli ''m'' = Inl LoadError \<and>
   recommend unreadable_cli ''m'' [''good''] [] 3
     = ([Info_reading_model_file, Error_failed_to_load_model_file], Returned_False) \<and>
   load_model example_cli ''m'' = Inr (Some (), [2, 4], ()) \<and>
   query_served (Finder example_cli () []) (Recommender example_cli [2, 4] () ()) 3 ''good'' \<and>
   query_fails (Finder example_cli () []) (Recommender example_cli [2, 4] () ()) 3 ''bad''
     NotFoundError \<and>
   recommend example_cli ''m'' [''good'', ''bad'', ''good''] [] 3
     = ([Info_reading_model_file, Info_loaded_model,
         Info_found \<lparr>item_id = 1, item_text = ''good''\<rparr>, Info_looking_for_recommendations,
         Info_rating (3 / 4) ''other''],
        Raised NotFoundError)"
proof -
  have l0: "load_model unreadable_cli ''m'' = Inl LoadError"
    by (simp add: unreadable_cli_def)
  have l1: "load_model example_cli ''m'' = Inr (Some (), [2, 4], ())"
    by (simp add: example_cli_def)
  have d: "dropna example_cli () = ()"
    by simp
  have served: "\<forall>q \<in> set [''good''].
      query_served (Finder example_cli (dropna example_cli ()) [])
        (Recommender example_cli [2, 4] (dropna example_cli ()) ()) 3 q"
    by (simp add: query_served_def example_cli_def)
  have fails: "query_fails (Finder example_cli (dropna example_cli ()) [])
        (Recommender example_cli [2, 4] (dropna example_cli ()) ()) 3 ''bad'' NotFoundError"
    by (simp add: query_fails_def example_cli_def)
  have a: "recommend unreadable_cli ''m'' [''good''] [] 3
     = ([Info_reading_model_file, Error_failed_to_load_model_file], Returned_False)"
    using recommend_failures[where c = unreadable_cli and path = "''m''" and ?e0.0 = LoadError
        and item_names = "[''good'']" and fields = "[]" and topk = 3] l0
    by blast
  have "recommend example_cli ''m'' ([''good''] @ ''bad'' # [''good'']) [] 3
          = recommend example_cli ''m'' ([''good''] @ [''bad'']) [] 3"
    using recommend_failures[where c = example_cli and path = "''m''" and fields = "[]"
        and model = "()" and idrange = "[2, 4]" and items = "()" and before = "[''good'']"
        and topk = 3 and q = "''bad''" and e = NotFoundError and rest = "[''good'']"]
      l1 served fails
    by blast
  also have "\<dots> = ([Info_reading_model_file, Info_loaded_model,
         Info_found \<lparr>item_id = 1, item_text = ''good''\<rparr>, Info_looking_for_recommendations,
         Info_rating (3 / 4) ''other''],
        Raised NotFoundError)"
    by (simp add: recommend_def example_cli_def)
  finally have b: "recommend example_cli ''m'' [''good'', ''bad'', ''good''] [] 3
     = ([Info_reading_model_file, Info_loaded_model,
         Info_found \<lparr>item_id = 1, item_text = ''good''\<rparr>, Info_looking_for_recommendations,
         Info_rating (3 / 4) ''other''],
        Raised NotFoundError)"
    by simp
  show ?thesis
    using l0 l1 a b served fails by (simp only: d) simp
qed

text \<open>With the queries \<open>bad\<close> and \<open>good\<close>, the finder's error for \<open>bad\<close> leaves the
  command, and nothing is logged for \<open>good\<close>.\<close>

theorem recommend_failures_counterexample:
  "recommend example_cli ''m'' [''bad'', ''good''] [] 3
     = ([Info_reading_model_file, Info_loaded_model], Raised NotFoundError)"
  by (simp add: recommend_def example_cli_def)

end
